theory Spec2Isabelle
  imports Complex_Main "HOL-Library.Word" "HOL-Library.Sublist"
begin

section \<open>JavaScript strings\<close>

text \<open>
  A JavaScript string is a sequence of UTF-16 code units; \<open>charCodeAt\<close>, \<open>length\<close>,
  \<open>includes\<close> and \<open>endsWith\<close> all work on code units. A string is therefore modelled as
  the list of its code units, and \<open>js\<close> turns an ASCII literal into that list.
\<close>

type_synonym jsstring = "nat list"

definition js :: "string \<Rightarrow> jsstring" where
  "js s = map of_char s"

text \<open>\<open>s.startsWith(p)\<close>, \<open>s.includes(p)\<close> and \<open>s.endsWith(p)\<close>.\<close>

fun startsWith :: "jsstring \<Rightarrow> jsstring \<Rightarrow> bool" where
  "startsWith s [] = True"
| "startsWith [] (p # ps) = False"
| "startsWith (c # cs) (p # ps) = (c = p \<and> startsWith cs ps)"

fun js_includes :: "jsstring \<Rightarrow> jsstring \<Rightarrow> bool" where
  "js_includes [] p = startsWith [] p"
| "js_includes (c # cs) p = (startsWith (c # cs) p \<or> js_includes cs p)"

definition endsWith :: "jsstring \<Rightarrow> jsstring \<Rightarrow> bool" where
  "endsWith s p = startsWith (rev s) (rev p)"

text \<open>
  \<open>String.prototype.trim\<close> removes white space and line terminators at both ends:
  TAB, LF, VT, FF, CR, SP, NBSP, U+1680, U+2000..U+200A, U+2028, U+2029, U+202F, U+205F,
  U+3000 and U+FEFF.
\<close>

definition isWhiteSpace :: "nat \<Rightarrow> bool" where
  "isWhiteSpace c = (c \<in> {9, 10, 11, 12, 13, 32, 160, 5760, 8232, 8233, 8239, 8287, 12288, 65279}
     \<or> (8192 \<le> c \<and> c \<le> 8202))"

definition trim :: "jsstring \<Rightarrow> jsstring" where
  "trim s = rev (dropWhile isWhiteSpace (rev (dropWhile isWhiteSpace s)))"

section \<open>The contact-identifier hash\<close>

text \<open>
  \<open>PrivacyManager.simpleHash\<close>, \<open>WhatsAppAdapter.hashString\<close> and
  \<open>MessageDetector.hashString\<close> are the same function:
  \<^verbatim>\<open>
  let hash = 0;
  if (str.length === 0) return hash.toString();
  for (let i = 0; i < str.length; i++) {
    const char = str.charCodeAt(i);
    hash = ((hash << 5) - hash) + char;
    hash = hash & hash;
  }
  return Math.abs(hash).toString(16);
  \<close>
  \<open>hash << 5\<close> and \<open>hash & hash\<close> convert their operands to signed 32-bit integers
  (\<open>ToInt32\<close>: reduce modulo \<open>2^32\<close> into \<open>[-2^31, 2^31)\<close>); the subtraction and
  the addition between them are exact.
\<close>

definition toInt32 :: "int \<Rightarrow> int" where
  "toInt32 x = (x + 2147483648) mod 4294967296 - 2147483648"

definition shiftLeft :: "int \<Rightarrow> nat \<Rightarrow> int" where
  "shiftLeft x n = toInt32 (toInt32 x * 2 ^ (n mod 32))"

definition hashStep :: "int \<Rightarrow> nat \<Rightarrow> int" where
  "hashStep hash char = toInt32 ((shiftLeft hash 5 - hash) + int char)"

fun hashLoop :: "int \<Rightarrow> jsstring \<Rightarrow> int" where
  "hashLoop hash [] = hash"
| "hashLoop hash (char # rest) = hashLoop (hashStep hash char) rest"

text \<open>\<open>Number.prototype.toString(16)\<close> on a non-negative integer: lower-case digits, no
  leading zero.\<close>

definition hexDigit :: "nat \<Rightarrow> nat" where
  "hexDigit d = (if d < 10 then 48 + d else 87 + d)"

fun toString16 :: "nat \<Rightarrow> jsstring" where
  "toString16 n = (if n < 16 then [hexDigit n] else toString16 (n div 16) @ [hexDigit (n mod 16)])"

declare toString16.simps [simp del]

definition simpleHash :: "jsstring \<Rightarrow> jsstring" where
  "simpleHash str =
     (if length str = 0 then js ''0'' else toString16 (nat \<bar>hashLoop 0 str\<bar>))"

definition hashString :: "jsstring \<Rightarrow> jsstring" where
  "hashString str =
     (if length str = 0 then js ''0'' else toString16 (nat \<bar>hashLoop 0 str\<bar>))"

text \<open>The code units of the sixteen hexadecimal digits that \<open>toString(16)\<close> writes.\<close>

definition isHexDigit :: "nat \<Rightarrow> bool" where
  "isHexDigit c = ((48 \<le> c \<and> c \<le> 57) \<or> (97 \<le> c \<and> c \<le> 102))"

section \<open>The WhatsApp adapter: the current contact identifier\<close>

text \<open>
  What \<open>getCurrentContactId\<close> reads from the browser: \<open>window.location.href\<close>,
  \<open>document.title\<close>, and for each entry of \<open>contactSelectors\<close>, in order, the
  \<open>textContent\<close> of the element \<open>document.querySelector\<close> finds (\<open>None\<close> when it
  finds no element).
\<close>

record page =
  href :: jsstring
  title :: jsstring
  contactElements :: "jsstring option list"

text \<open>
  \<open>url.match(/chat\/([^/?]+)/)\<close>: the leftmost place where the literal is followed by at
  least one code unit other than \<open>/\<close> (47) and \<open>?\<close> (63); the group captures the longest
  run of such code units. The result is \<open>match[1]\<close>, or \<open>None\<close> when there is no match.
\<close>

definition notSeparator :: "nat \<Rightarrow> bool" where
  "notSeparator c = (c \<noteq> 47 \<and> c \<noteq> 63)"

fun matchAfter :: "jsstring \<Rightarrow> jsstring \<Rightarrow> jsstring option" where
  "matchAfter lit [] = None"
| "matchAfter lit (c # cs) =
     (if startsWith (c # cs) lit \<and> takeWhile notSeparator (drop (length lit) (c # cs)) \<noteq> []
      then Some (takeWhile notSeparator (drop (length lit) (c # cs)))
      else matchAfter lit cs)"

definition extractContactIdFromURL :: "page \<Rightarrow> jsstring option" where
  "extractContactIdFromURL p = matchAfter (js ''chat/'') (href p)"

definition extractContactIdFromTitle :: "page \<Rightarrow> jsstring option" where
  "extractContactIdFromTitle p =
     (if title p \<noteq> [] \<and> title p \<noteq> js ''WhatsApp'' \<and> title p \<noteq> js ''WhatsApp Web''
      then Some (hashString (title p)) else None)"

fun extractFromElements :: "jsstring option list \<Rightarrow> jsstring option" where
  "extractFromElements [] = None"
| "extractFromElements (None # rest) = extractFromElements rest"
| "extractFromElements (Some textContent # rest) =
     (if textContent \<noteq> [] \<and> trim textContent \<noteq> []
      then Some (hashString (trim textContent))
      else extractFromElements rest)"

definition extractContactIdFromElements :: "page \<Rightarrow> jsstring option" where
  "extractContactIdFromElements p = extractFromElements (contactElements p)"

text \<open>\<open>if (x) return x\<close> on a string or \<open>null\<close>: taken when the string is not empty.\<close>

definition truthy :: "jsstring option \<Rightarrow> bool" where
  "truthy x = (case x of None \<Rightarrow> False | Some s \<Rightarrow> s \<noteq> [])"

text \<open>\<open>!x\<close> on a string or \<open>null\<close>.\<close>

definition falsy :: "jsstring option \<Rightarrow> bool" where
  "falsy x = (case x of None \<Rightarrow> True | Some s \<Rightarrow> s = [])"

definition getCurrentContactId :: "page \<Rightarrow> jsstring option" where
  "getCurrentContactId p =
     (let urlContactId = extractContactIdFromURL p in
      if truthy urlContactId then urlContactId
      else let titleContactId = extractContactIdFromTitle p in
      if truthy titleContactId then titleContactId
      else let elementContactId = extractContactIdFromElements p in
      if truthy elementContactId then elementContactId
      else None)"

subsection \<open>The detector's own fallback\<close>

text \<open>
  \<open>urlPatterns[platform]\<close>, where \<open>platform\<close> is the detector's \<open>currentPlatform\<close> string;
  no pattern for a platform outside the table.
\<close>

definition urlPatterns :: "jsstring \<Rightarrow> jsstring option" where
  "urlPatterns pf =
     (if pf = js ''whatsapp'' then Some (js ''chat/'')
      else if pf = js ''instagram'' then Some (js ''direct/t/'')
      else if pf = js ''telegram'' then Some (js ''c/'')
      else None)"

definition extractContactIdFromPage :: "jsstring \<Rightarrow> page \<Rightarrow> jsstring option" where
  "extractContactIdFromPage pf p =
     (case (case urlPatterns pf of None \<Rightarrow> None | Some pat \<Rightarrow> matchAfter pat (href p)) of
        Some m \<Rightarrow> Some m
      | None \<Rightarrow>
          if title p \<noteq> [] \<and> title p \<noteq> js ''WhatsApp'' \<and> title p \<noteq> js ''Instagram''
             \<and> title p \<noteq> js ''Telegram''
          then Some (hashString (title p)) else None)"

section \<open>The message detector\<close>

text \<open>
  The data an adapter's \<open>detectNewMessage\<close> hands to \<open>handleNewMessage\<close>, and the events
  the detector emits. \<open>emit\<close> runs the listeners at once and catches what they throw, so
  the model records the emitted events in order.
\<close>

record messageData =
  message :: jsstring
  contactId :: "jsstring option"
  platform :: jsstring
  timestamp :: int

datatype event =
    MessageReceived messageData
  | ContactChanged jsstring jsstring int
  | TypingDetected "jsstring option" jsstring int

record detector =
  messageQueue :: "messageData list"
  lastMessageTime :: int
  lastContactId :: "jsstring option"
  currentPlatform :: jsstring
  emitted :: "event list"

text \<open>The constructor leaves \<open>lastContactId\<close> undefined.\<close>

definition newDetector :: "jsstring \<Rightarrow> detector" where
  "newDetector pf = \<lparr>messageQueue = [], lastMessageTime = 0, lastContactId = None,
     currentPlatform = pf, emitted = []\<rparr>"

text \<open>
  \<^verbatim>\<open>
  const recentMessages = this.messageQueue.filter(msg =>
    msg.contactId === contactId && msg.message === message &&
    Math.abs(msg.timestamp - timestamp) < 5000);
  return recentMessages.length > 1;
  \<close>
\<close>

definition isDuplicateMessage :: "detector \<Rightarrow> messageData \<Rightarrow> bool" where
  "isDuplicateMessage d m =
     (let recentMessages = filter (\<lambda>msg. contactId msg = contactId m \<and> message msg = message m
                                      \<and> \<bar>timestamp msg - timestamp m\<bar> < 5000) (messageQueue d)
      in length recentMessages > 1)"

text \<open>
  \<open>checkForContactChange\<close>: \<open>cur\<close> is what \<open>this.getCurrentContactId()\<close> returns and
  \<open>now\<close> is \<open>Date.now()\<close> while the queue is processed.
\<close>

definition checkForContactChange :: "jsstring option \<Rightarrow> int \<Rightarrow> detector \<Rightarrow> detector" where
  "checkForContactChange cur now d =
     (case cur of
        None \<Rightarrow> d
      | Some c \<Rightarrow>
          if c \<noteq> [] \<and> cur \<noteq> lastContactId d
          then d\<lparr>lastContactId := cur,
                 emitted := emitted d @ [ContactChanged c (currentPlatform d) now]\<rparr>
          else d)"

text \<open>
  \<open>processMessageQueue\<close>: \<open>while (this.messageQueue.length > 0)\<close> shifts the first
  message off the queue, records its time and checks for a contact change; the loop ends
  with the queue empty.
\<close>

fun processQueue :: "jsstring option \<Rightarrow> int \<Rightarrow> messageData list \<Rightarrow> detector \<Rightarrow> detector" where
  "processQueue cur now [] d = d\<lparr>messageQueue := []\<rparr>"
| "processQueue cur now (m # rest) d =
     processQueue cur now rest
       (checkForContactChange cur now (d\<lparr>messageQueue := rest, lastMessageTime := timestamp m\<rparr>))"

definition processMessageQueue :: "jsstring option \<Rightarrow> int \<Rightarrow> detector \<Rightarrow> detector" where
  "processMessageQueue cur now d = processQueue cur now (messageQueue d) d"

text \<open>
  \<open>handleNewMessage\<close>: validation (\<open>!message || !contactId || !platform\<close>), the duplicate
  check, then push, process the queue, and emit \<open>messageReceived\<close>.
\<close>

definition handleNewMessage :: "jsstring option \<Rightarrow> int \<Rightarrow> messageData \<Rightarrow> detector \<Rightarrow> detector" where
  "handleNewMessage cur now m d =
     (if message m = [] \<or> falsy (contactId m) \<or> platform m = [] then d
      else if isDuplicateMessage d m then d
      else let d1 = d\<lparr>messageQueue := messageQueue d @ [m]\<rparr>;
               d2 = processMessageQueue cur now d1
           in d2\<lparr>emitted := emitted d2 @ [MessageReceived m]\<rparr>)"

fun isMessageReceived :: "event \<Rightarrow> bool" where
  "isMessageReceived (MessageReceived m) = True"
| "isMessageReceived (ContactChanged c p t) = False"
| "isMessageReceived (TypingDetected c p t) = False"

definition messageReceivedCount :: "detector \<Rightarrow> nat" where
  "messageReceivedCount d = length (filter isMessageReceived (emitted d))"

section \<open>The content script\<close>

text \<open>
  A contact as the content script reads it: \<open>contactId\<close>, \<open>platform\<close> and
  \<open>conversationStyle\<close> (which may be missing) with \<open>formalityLevel\<close> and \<open>emojiUsage\<close>.
\<close>

record style =
  formalityLevel :: real
  emojiUsage :: real

record contact =
  contactKey :: jsstring
  contactPlatform :: jsstring
  conversationStyle :: "style option"

text \<open>An entry of \<open>conversationContext\<close>: \<open>{type, message, timestamp, contactId}\<close>.\<close>

record contextEntry =
  ctxType :: jsstring
  ctxMessage :: jsstring
  ctxTimestamp :: int
  ctxContactId :: "jsstring option"

text \<open>A suggestion: \<open>{id, text, type, description}\<close>.\<close>

record suggestion =
  sugId :: jsstring
  sugText :: jsstring
  sugType :: jsstring
  sugDescription :: jsstring

text \<open>The fields of \<open>UIOverlay\<close> that \<open>showSuggestions\<close> sets.\<close>

record overlay =
  currentSuggestions :: "suggestion list"
  overlayContact :: "contact option"
  isVisible :: bool

record chatsy =
  isEnabled :: bool
  currentContact :: "contact option"
  conversationContext :: "contextEntry list"
  uiOverlay :: "overlay option"

definition newOverlay :: overlay where
  "newOverlay = \<lparr>currentSuggestions = [], overlayContact = None, isVisible = False\<rparr>"

text \<open>The constructor, and the state once the script's set-up has created the overlay.\<close>

definition newChatsy :: chatsy where
  "newChatsy = \<lparr>isEnabled = True, currentContact = None, conversationContext = [],
     uiOverlay = None\<rparr>"

definition withOverlay :: "chatsy \<Rightarrow> chatsy" where
  "withOverlay st = st\<lparr>uiOverlay := Some newOverlay\<rparr>"

text \<open>
  \<open>handleMessageReceived\<close>. \<open>ContactManager\<close> and \<open>ConversationAnalyzer\<close> are not part of
  the sources, so what they do is an argument: \<open>lookup\<close> is the outcome of
  \<open>await this.contactManager.getOrCreateContact(contactId, platform)\<close> (\<open>None\<close> when the
  promise rejects, which the handler's \<open>catch\<close> swallows before anything is changed), and
  \<open>analyse\<close> is what \<open>analyzeMessage\<close> and \<open>updateContact\<close> do to the contact object they
  are handed. Between the first \<open>await\<close> and the second the handler runs without
  interruption: it sets the contact, pushes the entry and trims with
  \<open>splice(0, length - 10)\<close>.
\<close>

definition handleMessageReceived ::
  "messageData \<Rightarrow> contact option \<Rightarrow> (contact \<Rightarrow> contact) \<Rightarrow> chatsy \<Rightarrow> chatsy" where
  "handleMessageReceived data lookup analyse st =
     (case lookup of
        None \<Rightarrow> st
      | Some c \<Rightarrow>
          let pushed = conversationContext st @
                 [\<lparr>ctxType = js ''received'', ctxMessage = message data,
                   ctxTimestamp = timestamp data, ctxContactId = contactId data\<rparr>];
              trimmed = (if length pushed > 10 then drop (length pushed - 10) pushed else pushed)
          in st\<lparr>currentContact := Some (analyse c), conversationContext := trimmed\<rparr>)"

text \<open>\<open>handleContactChanged\<close>: the same lookup, then \<open>this.conversationContext = []\<close>.\<close>

definition handleContactChanged ::
  "jsstring \<Rightarrow> jsstring \<Rightarrow> contact option \<Rightarrow> chatsy \<Rightarrow> chatsy" where
  "handleContactChanged cid pf lookup st =
     (case lookup of
        None \<Rightarrow> st
      | Some c \<Rightarrow> st\<lparr>currentContact := Some c, conversationContext := []\<rparr>)"

text \<open>A run of the two handlers, in the order in which their lookups resolve.\<close>

datatype operation =
    OnMessageReceived messageData "contact option" "contact \<Rightarrow> contact"
  | OnContactChanged jsstring jsstring "contact option"

fun step :: "chatsy \<Rightarrow> operation \<Rightarrow> chatsy" where
  "step st (OnMessageReceived data lookup analyse) = handleMessageReceived data lookup analyse st"
| "step st (OnContactChanged cid pf lookup) = handleContactChanged cid pf lookup st"

definition run :: "operation list \<Rightarrow> chatsy \<Rightarrow> chatsy" where
  "run ops st = foldl step st ops"

subsection \<open>Requesting suggestions\<close>

text \<open>\<open>Array.prototype.join\<close> on strings, and reading an array at an index (\<open>None\<close> for
  \<open>undefined\<close>).\<close>

fun joinWith :: "jsstring \<Rightarrow> jsstring list \<Rightarrow> jsstring" where
  "joinWith sep [] = []"
| "joinWith sep [x] = x"
| "joinWith sep (x # y # rest) = x @ sep @ joinWith sep (y # rest)"

definition elementAt :: "'a list \<Rightarrow> nat \<Rightarrow> 'a option" where
  "elementAt xs i = (if i < length xs then Some (xs ! i) else None)"

text \<open>\<open>buildConversationContext\<close>: the last five entries, one per line.\<close>

definition buildConversationContext :: "chatsy \<Rightarrow> jsstring" where
  "buildConversationContext st =
     (if length (conversationContext st) = 0 then []
      else joinWith [10]
        (map (\<lambda>ctx. (if ctxType ctx = js ''received'' then js ''Them'' else js ''You'')
                     @ js '': '' @ ctxMessage ctx)
           (drop (length (conversationContext st) - 5) (conversationContext st))))"

text \<open>The \<open>GET_AI_RESPONSE\<close> message that \<open>generateSuggestions\<close> sends.\<close>

record request =
  reqMessage :: jsstring
  reqContext :: jsstring
  reqContactId :: jsstring
  reqPlatform :: jsstring
  reqContactStyle :: "style option"

text \<open>
  \<open>generateSuggestions\<close> returns the request it sends, or \<open>None\<close> when it returns early.
  \<open>lastMessage\<close> is the last entry of type \<open>received\<close>.
\<close>

definition generateSuggestions :: "chatsy \<Rightarrow> request option" where
  "generateSuggestions st =
     (case currentContact st of
        None \<Rightarrow> None
      | Some c \<Rightarrow>
          if length (conversationContext st) = 0 then None
          else case rev (filter (\<lambda>ctx. ctxType ctx = js ''received'') (conversationContext st)) of
              [] \<Rightarrow> None
            | lastMessage # earlier \<Rightarrow>
                Some \<lparr>reqMessage = ctxMessage lastMessage,
                      reqContext = buildConversationContext st,
                      reqContactId = contactKey c,
                      reqPlatform = contactPlatform c,
                      reqContactStyle = conversationStyle c\<rparr>)"

text \<open>\<open>handleTypingDetected\<close>: only for the current contact, and only when enabled.\<close>

definition handleTypingDetected :: "jsstring option \<Rightarrow> chatsy \<Rightarrow> request option" where
  "handleTypingDetected cid st =
     (case currentContact st of
        None \<Rightarrow> None
      | Some c \<Rightarrow>
          if \<not> isEnabled st then None
          else if cid = Some (contactKey c) then generateSuggestions st
          else None)"

subsection \<open>Showing suggestions\<close>

text \<open>
  \<open>Math.floor(Math.random() * n)\<close>, with \<open>r\<close> the number \<open>Math.random()\<close> returns, a
  number in \<open>[0, 1)\<close>.
\<close>

definition randomIndex :: "real \<Rightarrow> nat \<Rightarrow> nat" where
  "randomIndex r n = nat \<lfloor>r * real n\<rfloor>"

definition delayPhrases :: "jsstring list" where
  "delayPhrases = [js ''Thanks for that! '', js ''I appreciate you sharing that. '',
     js ''That'' @ [39] @ js ''s interesting! '', js ''I see what you mean. '']"

text \<open>Code unit 39 is the apostrophe. \<open>randomDelay + response\<close>; an \<open>undefined\<close> phrase would print as \<open>"undefined"\<close>.\<close>

definition addPoliteDelay :: "real \<Rightarrow> jsstring \<Rightarrow> jsstring" where
  "addPoliteDelay r response =
     (case elementAt delayPhrases (randomIndex r (length delayPhrases)) of
        Some randomDelay \<Rightarrow> randomDelay @ response
      | None \<Rightarrow> js ''undefined'' @ response)"

text \<open>The emoji U+1F60A is the surrogate pair D83D DE0A.\<close>

definition smilingEmoji :: jsstring where
  "smilingEmoji = [55357, 56842]"

text \<open>
  \<open>makeEngaging\<close>:
  \<^verbatim>\<open>
  let engaging = response;
  if (!response.includes('?') && !response.includes('!')) engaging += ' What do you think?';
  if (this.currentContact?.conversationStyle?.emojiUsage > 0.5) engaging += ' <emoji>';
  \<close>
\<close>

definition highEmojiUsage :: "contact option \<Rightarrow> bool" where
  "highEmojiUsage c =
     (case c of
        None \<Rightarrow> False
      | Some ct \<Rightarrow> (case conversationStyle ct of None \<Rightarrow> False | Some s \<Rightarrow> emojiUsage s > 0.5))"

definition makeEngaging :: "chatsy \<Rightarrow> jsstring \<Rightarrow> jsstring" where
  "makeEngaging st response =
     (let engaging = response;
          engaging = (if \<not> js_includes response (js ''?'') \<and> \<not> js_includes response (js ''!'')
                      then engaging @ js '' What do you think?'' else engaging);
          engaging = (if highEmojiUsage (currentContact st)
                      then engaging @ js '' '' @ smilingEmoji else engaging)
      in engaging)"

definition generateSuggestionOptions :: "chatsy \<Rightarrow> real \<Rightarrow> jsstring \<Rightarrow> jsstring \<Rightarrow> suggestion list" where
  "generateSuggestionOptions st r aiResponse originalMessage =
     [\<lparr>sugId = js ''direct'', sugText = aiResponse, sugType = js ''direct'',
        sugDescription = js ''Use as is''\<rparr>,
      \<lparr>sugId = js ''polite'', sugText = addPoliteDelay r aiResponse, sugType = js ''polite'',
        sugDescription = js ''Add polite delay''\<rparr>,
      \<lparr>sugId = js ''engaging'', sugText = makeEngaging st aiResponse, sugType = js ''engaging'',
        sugDescription = js ''Make more engaging''\<rparr>]"

text \<open>
  \<open>UIOverlay.showSuggestions(suggestions, contact)\<close>: nothing for an empty list; otherwise it
  stores both arguments and shows the overlay.
\<close>

definition overlayShowSuggestions :: "suggestion list \<Rightarrow> contact option \<Rightarrow> overlay \<Rightarrow> overlay" where
  "overlayShowSuggestions suggestions c ov =
     (if length suggestions = 0 then ov
      else ov\<lparr>currentSuggestions := suggestions, overlayContact := c, isVisible := True\<rparr>)"

definition showSuggestions :: "real \<Rightarrow> jsstring \<Rightarrow> jsstring \<Rightarrow> chatsy \<Rightarrow> chatsy" where
  "showSuggestions r aiResponse originalMessage st =
     (case uiOverlay st of
        None \<Rightarrow> st
      | Some ov \<Rightarrow>
          st\<lparr>uiOverlay := Some (overlayShowSuggestions
                 (generateSuggestionOptions st r aiResponse originalMessage) (currentContact st) ov)\<rparr>)"

text \<open>
  The callback that \<open>generateSuggestions\<close> hands to \<open>chrome.runtime.sendMessage\<close>, run when
  the reply to \<open>req\<close> arrives (\<open>None\<close> for an \<open>undefined\<close> reply):
  \<^verbatim>\<open>
  (response) => {
    if (response && response.success) {
      this.showSuggestions(response.response, lastMessage.message);
    } else { console.error(...); }
  }
  \<close>
\<close>

record reply =
  replySuccess :: bool
  replyResponse :: jsstring

definition deliverResponse :: "real \<Rightarrow> request \<Rightarrow> reply option \<Rightarrow> chatsy \<Rightarrow> chatsy" where
  "deliverResponse r req rp st =
     (case rp of
        None \<Rightarrow> st
      | Some re \<Rightarrow> if replySuccess re then showSuggestions r (replyResponse re) (reqMessage req) st else st)"

subsection \<open>Two scenarios\<close>

text \<open>
  A contact with formality 0.9 and emoji rate 0.8, active in a script whose overlay exists.
\<close>

definition formalEmojiContact :: contact where
  "formalEmojiContact = \<lparr>contactKey = js ''3c6a660'', contactPlatform = js ''whatsapp'',
     conversationStyle = Some \<lparr>formalityLevel = 0.9, emojiUsage = 0.8\<rparr>\<rparr>"

definition formalEmojiState :: chatsy where
  "formalEmojiState = (withOverlay newChatsy)\<lparr>currentContact := Some formalEmojiContact\<rparr>"

text \<open>
  A late reply. Contact Y is active and has sent \<open>"Are we still on for tomorrow"\<close>; typing
  is detected for Y and the request \<open>requestForY\<close> goes out; the user switches to contact X;
  then the reply to \<open>requestForY\<close> arrives.
\<close>

definition contactY :: contact where
  "contactY = \<lparr>contactKey = js ''3c6a660'', contactPlatform = js ''whatsapp'',
     conversationStyle = None\<rparr>"

definition contactX :: contact where
  "contactX = \<lparr>contactKey = js ''10ae5cae'', contactPlatform = js ''whatsapp'',
     conversationStyle = None\<rparr>"

definition activeY :: chatsy where
  "activeY = handleMessageReceived
     \<lparr>message = js ''Are we still on for tomorrow'', contactId = Some (js ''3c6a660''),
       platform = js ''whatsapp'', timestamp = 1000\<rparr>
     (Some contactY) (\<lambda>c. c) (withOverlay newChatsy)"

definition requestForY :: request where
  "requestForY = \<lparr>reqMessage = js ''Are we still on for tomorrow'',
     reqContext = js ''Them: Are we still on for tomorrow'',
     reqContactId = js ''3c6a660'', reqPlatform = js ''whatsapp'', reqContactStyle = None\<rparr>"

definition activeX :: chatsy where
  "activeX = handleContactChanged (js ''10ae5cae'') (js ''whatsapp'') (Some contactX) activeY"

definition afterLateReply :: chatsy where
  "afterLateReply =
     deliverResponse 0 requestForY (Some \<lparr>replySuccess = True, replyResponse = js ''Sounds good''\<rparr>) activeX"

section \<open>The API manager\<close>

datatype jsError = TypeError | SyntaxError

subsection \<open>The rate limiter\<close>

text \<open>
  The constructor sets \<open>this.requestCount = 0\<close> and \<open>this.maxRequestsPerMinute = 60\<close>;
  \<open>checkRateLimit\<close> treats \<open>requestCount\<close> as an array of request times. The field
  is therefore a value that is either a number or an array of numbers.
\<close>

datatype counter = Count int | Times "int list"

record apiKeys =
  huggingface :: "jsstring option"
  gemini :: "jsstring option"

record apiManager =
  requestCount :: counter
  maxRequestsPerMinute :: int
  keys :: "apiKeys option"

definition newAPIManager :: apiManager where
  "newAPIManager = \<lparr>requestCount = Count 0, maxRequestsPerMinute = 60, keys = None\<rparr>"

text \<open>
  \<^verbatim>\<open>
  const now = Date.now();
  const oneMinuteAgo = now - (60 * 1000);
  this.requestCount = this.requestCount.filter(time => time > oneMinuteAgo).length;
  if (this.requestCount >= this.maxRequestsPerMinute) {
    const oldestRequest = Math.min(...this.requestCount);
    const waitTime = (60 * 1000) - (now - oldestRequest);
    await new Promise(resolve => setTimeout(resolve, waitTime));
  }
  this.requestCount.push(now);
  \<close>
  A number has no \<open>filter\<close> and no \<open>push\<close> method and cannot be spread, so each of these
  throws a \<open>TypeError\<close>, which rejects the promise the \<open>async\<close> function returns. On an
  array, the first statement replaces the array by the length of the filtered copy. The
  result is the error, or the time waited, together with the manager as the call leaves it.
\<close>

definition checkRateLimit :: "int \<Rightarrow> apiManager \<Rightarrow> (jsError + int) \<times> apiManager" where
  "checkRateLimit now m =
     (let oneMinuteAgo = now - 60 * 1000 in
      case requestCount m of
        Count n \<Rightarrow> (Inl TypeError, m)
      | Times ts \<Rightarrow>
          let n = int (length (filter (\<lambda>time. time > oneMinuteAgo) ts));
              m1 = m\<lparr>requestCount := Count n\<rparr>
          in if n \<ge> maxRequestsPerMinute m1 then (Inl TypeError, m1)
             else (Inl TypeError, m1))"

subsection \<open>Provider replies\<close>

text \<open>
  A parsed JSON value; an object is the list of its members. What \<open>fetch\<close> gives: the
  promise rejects, or there is a response with a status and a body that \<open>response.json()\<close>
  parses or rejects as malformed.
\<close>

datatype json =
    JNull
  | JBool bool
  | JNum real
  | JStr jsstring
  | JArr "json list"
  | JObj "(jsstring \<times> json) list"

datatype body = Malformed | Parsed json

datatype fetchOutcome = FetchRejected | FetchResponse nat body

definition ok :: "nat \<Rightarrow> bool" where
  "ok status = (200 \<le> status \<and> status \<le> 299)"

text \<open>Truthiness of a value that may be \<open>undefined\<close> (\<open>None\<close>).\<close>

fun truthyJson :: "json option \<Rightarrow> bool" where
  "truthyJson None = False"
| "truthyJson (Some JNull) = False"
| "truthyJson (Some (JBool b)) = b"
| "truthyJson (Some (JNum x)) = (x \<noteq> 0)"
| "truthyJson (Some (JStr s)) = (s \<noteq> [])"
| "truthyJson (Some (JArr xs)) = True"
| "truthyJson (Some (JObj kvs)) = True"

text \<open>
  \<open>v.name\<close> for the member names the code reads, none of which is a built-in property of
  a string, number, boolean or array; and \<open>v[0]\<close>. Reading a property of \<open>null\<close> or
  \<open>undefined\<close> throws.
\<close>

fun member :: "jsstring \<Rightarrow> json option \<Rightarrow> jsError + json option" where
  "member name None = Inl TypeError"
| "member name (Some JNull) = Inl TypeError"
| "member name (Some (JObj kvs)) = Inr (map_of kvs name)"
| "member name (Some v) = Inr None"

fun first :: "json option \<Rightarrow> jsError + json option" where
  "first None = Inl TypeError"
| "first (Some JNull) = Inl TypeError"
| "first (Some (JArr [])) = Inr None"
| "first (Some (JArr (x # xs))) = Inr (Some x)"
| "first (Some (JStr [])) = Inr None"
| "first (Some (JStr (c # cs))) = Inr (Some (JStr [c]))"
| "first (Some (JObj kvs)) = Inr (map_of kvs (js ''0''))"
| "first (Some v) = Inr None"

text \<open>
  \<open>response.replace(/^Response:\s*/i, '')\<close>: the letters are compared ignoring ASCII
  case, and \<open>\s\<close> is the white space that \<open>trim\<close> removes.
\<close>

definition upperAscii :: "nat \<Rightarrow> nat" where
  "upperAscii c = (if 97 \<le> c \<and> c \<le> 122 then c - 32 else c)"

definition stripResponsePrefix :: "jsstring \<Rightarrow> jsstring" where
  "stripResponsePrefix s =
     (if map upperAscii (take 9 s) = js ''RESPONSE:'' then dropWhile isWhiteSpace (drop 9 s) else s)"

text \<open>The clean-up both providers share: \<open>trim\<close>, then cut at 100 code units.\<close>

definition truncate100 :: "jsstring \<Rightarrow> jsstring" where
  "truncate100 response =
     (if length response > 100 then take 100 response @ js ''...'' else response)"

text \<open>
  \<open>processHFResponse\<close>: \<open>result && result[0] && result[0].generated_text\<close>, then string
  methods on \<open>generated_text\<close>, which throw when it is not a string.
\<close>

definition processHFResponse :: "json \<Rightarrow> jsError + jsstring option" where
  "processHFResponse result =
     (if \<not> truthyJson (Some result) then Inr None
      else case first (Some result) of
          Inl e \<Rightarrow> Inl e
        | Inr r0 \<Rightarrow>
            if \<not> truthyJson r0 then Inr None
            else case member (js ''generated_text'') r0 of
                Inl e \<Rightarrow> Inl e
              | Inr g \<Rightarrow>
                  if \<not> truthyJson g then Inr None
                  else case g of
                      Some (JStr response) \<Rightarrow>
                        Inr (Some (truncate100 (trim (stripResponsePrefix response))))
                    | _ \<Rightarrow> Inl TypeError)"

text \<open>
  \<open>processGeminiResponse\<close>: the guard reads \<open>result.candidates[0].content\<close>; the body
  reads \<open>.parts[0].text\<close> unguarded and calls \<open>trim\<close> on it.
\<close>

definition processGeminiResponse :: "json \<Rightarrow> jsError + jsstring option" where
  "processGeminiResponse result =
     (if \<not> truthyJson (Some result) then Inr None
      else case member (js ''candidates'') (Some result) of
          Inl e \<Rightarrow> Inl e
        | Inr cands \<Rightarrow>
            if \<not> truthyJson cands then Inr None
            else case first cands of
                Inl e \<Rightarrow> Inl e
              | Inr c0 \<Rightarrow>
                  if \<not> truthyJson c0 then Inr None
                  else case member (js ''content'') c0 of
                      Inl e \<Rightarrow> Inl e
                    | Inr content \<Rightarrow>
                        if \<not> truthyJson content then Inr None
                        else case member (js ''parts'') content of
                            Inl e \<Rightarrow> Inl e
                          | Inr parts \<Rightarrow>
                             (case first parts of
                                Inl e \<Rightarrow> Inl e
                              | Inr p0 \<Rightarrow>
                                 (case member (js ''text'') p0 of
                                    Inl e \<Rightarrow> Inl e
                                  | Inr (Some (JStr response)) \<Rightarrow>
                                      Inr (Some (truncate100 (trim response)))
                                  | Inr other \<Rightarrow> Inl TypeError)))"

subsection \<open>Prompts and provider calls\<close>

definition buildHFPrompt :: "request \<Rightarrow> jsstring" where
  "buildHFPrompt data =
     (let prompt = js ''Context: ''
            @ (if reqContext data \<noteq> [] then reqContext data else js ''General conversation'')
            @ [10];
          prompt = (case reqContactStyle data of
              None \<Rightarrow> prompt
            | Some contactStyle \<Rightarrow>
                prompt @ js ''Contact style: ''
                  @ (if formalityLevel contactStyle > 0.7 then js ''Formal'' else js ''Casual'')
                  @ js '', '' @ js ''Emoji usage: ''
                  @ (if emojiUsage contactStyle > 0.5 then js ''High'' else js ''Low'') @ [10])
      in prompt @ js ''Message: '' @ reqMessage data @ [10] @ js ''Response:'')"

definition buildGeminiPrompt :: "request \<Rightarrow> jsstring" where
  "buildGeminiPrompt data =
     (let prompt = js ''You are a helpful AI texting assistant. Generate a natural, contextual response to this message:''
            @ [10, 10];
          prompt = (if reqContext data \<noteq> []
                    then prompt @ js ''Conversation context: '' @ reqContext data @ [10, 10]
                    else prompt);
          prompt = (case reqContactStyle data of
              None \<Rightarrow> prompt
            | Some contactStyle \<Rightarrow>
                prompt @ js ''Match this style: '' @ js ''Formality level: ''
                  @ (if formalityLevel contactStyle > 0.7 then js ''formal'' else js ''casual'')
                  @ js '', '' @ js ''Emoji usage: ''
                  @ (if emojiUsage contactStyle > 0.5 then js ''include emojis'' else js ''minimal emojis'')
                  @ [10, 10])
      in prompt @ js ''Message: '' @ [34] @ reqMessage data @ [34] @ [10, 10] @ js ''Response:'')"

text \<open>
  \<open>tryHuggingFace\<close> and \<open>tryGoogleGemini\<close>. The provider is the function \<open>fetch\<close> from the
  API key and the prompt to what the request gives. Reading \<open>this.apiKeys.huggingface\<close>
  happens before the \<open>try\<close> and throws while \<open>apiKeys\<close> is still undefined; everything
  after it is inside \<open>try\<close>, whose \<open>catch\<close> returns \<open>null\<close>.
\<close>

definition tryHuggingFace ::
  "apiManager \<Rightarrow> (jsstring \<Rightarrow> jsstring \<Rightarrow> fetchOutcome) \<Rightarrow> request \<Rightarrow> jsError + jsstring option" where
  "tryHuggingFace m fetch data =
     (case keys m of
        None \<Rightarrow> Inl TypeError
      | Some ks \<Rightarrow>
         (case huggingface ks of
            None \<Rightarrow> Inr None
          | Some apiKey \<Rightarrow>
              if apiKey = [] then Inr None
              else case fetch apiKey (buildHFPrompt data) of
                  FetchRejected \<Rightarrow> Inr None
                | FetchResponse status b \<Rightarrow>
                    if ok status
                    then (case b of
                            Malformed \<Rightarrow> Inr None
                          | Parsed result \<Rightarrow>
                              (case processHFResponse result of Inl e \<Rightarrow> Inr None | Inr x \<Rightarrow> Inr x))
                    else Inr None))"

definition tryGoogleGemini ::
  "apiManager \<Rightarrow> (jsstring \<Rightarrow> jsstring \<Rightarrow> fetchOutcome) \<Rightarrow> request \<Rightarrow> jsError + jsstring option" where
  "tryGoogleGemini m fetch data =
     (case keys m of
        None \<Rightarrow> Inl TypeError
      | Some ks \<Rightarrow>
         (case gemini ks of
            None \<Rightarrow> Inr None
          | Some apiKey \<Rightarrow>
              if apiKey = [] then Inr None
              else case fetch apiKey (buildGeminiPrompt data) of
                  FetchRejected \<Rightarrow> Inr None
                | FetchResponse status b \<Rightarrow>
                    if ok status
                    then (case b of
                            Malformed \<Rightarrow> Inr None
                          | Parsed result \<Rightarrow>
                              (case processGeminiResponse result of Inl e \<Rightarrow> Inr None | Inr x \<Rightarrow> Inr x))
                    else Inr None))"

subsection \<open>The local pattern matcher\<close>

text \<open>\<open>responses[Math.floor(Math.random() * responses.length)]\<close>.\<close>

definition getRandomResponse :: "real \<Rightarrow> jsstring list \<Rightarrow> jsstring option" where
  "getRandomResponse r responses = elementAt responses (randomIndex r (length responses))"

text \<open>
  The fixed response sets. Code unit 39 is the apostrophe; the emoji are the surrogate
  pairs of U+1F44B, U+1F60A and U+1F44D.
\<close>

definition greetingResponses :: "jsstring list" where
  "greetingResponses = [js ''Hey there! '' @ [55357, 56395], js ''Hi! How are you?'',
     js ''Hello! Nice to hear from you'']"

definition howAreYouResponses :: "jsstring list" where
  "howAreYouResponses = [js ''I'' @ [39] @ js ''m doing great, thanks for asking! '' @ [55357, 56842],
     js ''All good here! How about you?'',
     js ''Pretty good! Hope you'' @ [39] @ js ''re well too'']"

definition thanksResponses :: "jsstring list" where
  "thanksResponses = [js ''You'' @ [39] @ js ''re welcome! '' @ [55357, 56842], js ''Anytime!'',
     js ''Glad I could help!'']"

definition farewellResponses :: "jsstring list" where
  "farewellResponses = [js ''See you later! '' @ [55357, 56395], js ''Take care!'',
     js ''Talk to you soon!'']"

definition shortResponses :: "jsstring list" where
  "shortResponses = [js ''Got it! '' @ [55357, 56397], js ''I see!'', js ''Interesting!'',
     js ''Tell me more!'']"

definition defaultResponses :: "jsstring list" where
  "defaultResponses = [js ''That sounds good!'', js ''I understand what you mean'',
     js ''Thanks for sharing that'', js ''I appreciate you telling me'']"

text \<open>
  \<open>generateLocalResponse\<close>. \<open>toLowerCase\<close> stands for \<open>String.prototype.toLowerCase\<close>,
  whose Unicode case mapping is left open; \<open>lowerAscii\<close> is what it does on a string of
  ASCII code units.
\<close>

definition lowerAscii :: "jsstring \<Rightarrow> jsstring" where
  "lowerAscii s = map (\<lambda>c. if 65 \<le> c \<and> c \<le> 90 then c + 32 else c) s"

definition generateLocalResponse :: "(jsstring \<Rightarrow> jsstring) \<Rightarrow> real \<Rightarrow> request \<Rightarrow> jsstring option" where
  "generateLocalResponse toLowerCase r data =
     (let lowerMessage = toLowerCase (reqMessage data) in
      if js_includes lowerMessage (js ''hello'') \<or> js_includes lowerMessage (js ''hi'')
      then getRandomResponse r greetingResponses
      else if js_includes lowerMessage (js ''how are you'')
      then getRandomResponse r howAreYouResponses
      else if js_includes lowerMessage (js ''thank'')
      then getRandomResponse r thanksResponses
      else if js_includes lowerMessage (js ''bye'') \<or> js_includes lowerMessage (js ''goodbye'')
      then getRandomResponse r farewellResponses
      else if length (reqMessage data) < 20
      then getRandomResponse r shortResponses
      else getRandomResponse r defaultResponses)"

text \<open>
  \<open>generateResponse\<close>: HuggingFace, then Gemini, then the local matcher; the \<open>catch\<close>
  around the provider calls also ends in the local matcher.
\<close>

definition generateResponse ::
  "apiManager \<Rightarrow> (jsstring \<Rightarrow> jsstring \<Rightarrow> fetchOutcome) \<Rightarrow> (jsstring \<Rightarrow> jsstring \<Rightarrow> fetchOutcome)
     \<Rightarrow> (jsstring \<Rightarrow> jsstring) \<Rightarrow> real \<Rightarrow> request \<Rightarrow> jsstring option" where
  "generateResponse m fetchHF fetchGemini toLowerCase r data =
     (case tryHuggingFace m fetchHF data of
        Inl e \<Rightarrow> generateLocalResponse toLowerCase r data
      | Inr hfResponse \<Rightarrow>
          if truthy hfResponse then hfResponse
          else case tryGoogleGemini m fetchGemini data of
              Inl e \<Rightarrow> generateLocalResponse toLowerCase r data
            | Inr geminiResponse \<Rightarrow>
                if truthy geminiResponse then geminiResponse
                else generateLocalResponse toLowerCase r data)"

text \<open>A manager whose keys are loaded, a provider that answers HTTP 500, and one whose
  body is not JSON.\<close>

definition keyedAPIManager :: apiManager where
  "keyedAPIManager = newAPIManager\<lparr>keys := Some \<lparr>huggingface = Some (js ''hf_key''),
     gemini = Some (js ''g_key'')\<rparr>\<rparr>"

definition serverError :: "jsstring \<Rightarrow> jsstring \<Rightarrow> fetchOutcome" where
  "serverError k prompt = FetchResponse 500 (Parsed (JObj [(js ''error'', JStr (js ''overloaded''))]))"

definition malformedReply :: "jsstring \<Rightarrow> jsstring \<Rightarrow> fetchOutcome" where
  "malformedReply k prompt = FetchResponse 200 Malformed"

definition helloRequest :: request where
  "helloRequest = \<lparr>reqMessage = js ''Hello, are you free?'', reqContext = js ''Them: Hello, are you free?'',
     reqContactId = js ''3c6a660'', reqPlatform = js ''whatsapp'', reqContactStyle = None\<rparr>"

section \<open>The service worker: stored conversations\<close>

text \<open>
  The record \<open>storeConversationData\<close> builds, and the \<open>conversationData\<close> key of
  \<open>chrome.storage.local\<close> (\<open>None\<close> while the key has never been set).
\<close>

record conversation =
  convContactId :: jsstring
  convPlatform :: jsstring
  convMessage :: jsstring
  convResponse :: "jsstring option"
  convTimestamp :: int
  convSuccess :: bool

record storage =
  conversationData :: "conversation list option"

text \<open>
  \<^verbatim>\<open>
  chrome.storage.local.get(['conversationData'], (result) => {
    const conversations = result.conversationData || [];
    conversations.push(conversationData);
    if (conversations.length > 1000) {
      conversations.splice(0, conversations.length - 1000);
    }
    chrome.storage.local.set({ conversationData: conversations });
  });
  \<close>
  \<open>now\<close> is \<open>Date.now()\<close>, and \<open>storedConversations\<close> is
  \<open>result.conversationData || []\<close>.
\<close>

definition storedConversations :: "storage \<Rightarrow> conversation list" where
  "storedConversations store = (case conversationData store of None \<Rightarrow> [] | Some cs \<Rightarrow> cs)"

definition storeConversationData ::
  "int \<Rightarrow> jsstring \<Rightarrow> jsstring \<Rightarrow> jsstring \<Rightarrow> jsstring option \<Rightarrow> storage \<Rightarrow> storage" where
  "storeConversationData now cid pf msg resp store =
     (let entry = \<lparr>convContactId = cid, convPlatform = pf, convMessage = msg,
                    convResponse = resp, convTimestamp = now, convSuccess = True\<rparr>;
          conversations = storedConversations store;
          conversations = conversations @ [entry];
          conversations = (if length conversations > 1000
                           then drop (length conversations - 1000) conversations
                           else conversations)
      in store\<lparr>conversationData := Some conversations\<rparr>)"

text \<open>\<open>cleanupOldData\<close>, the daily purge of entries older than thirty days.\<close>

definition cleanupOldData :: "int \<Rightarrow> storage \<Rightarrow> storage" where
  "cleanupOldData now store =
     (let thirtyDaysAgo = now - 30 * 24 * 60 * 60 * 1000 in
      case conversationData store of
        None \<Rightarrow> store
      | Some cs \<Rightarrow>
          store\<lparr>conversationData := Some (filter (\<lambda>conv. convTimestamp conv > thirtyDaysAgo) cs)\<rparr>)"

section \<open>The privacy manager: encryption of stored data\<close>

text \<open>
  \<open>encryptData\<close> and \<open>decryptData\<close> call the browser: \<open>window.crypto.subtle\<close>
  (\<open>importKey\<close>, \<open>encrypt\<close>, \<open>decrypt\<close> with AES-GCM), \<open>JSON.stringify\<close> and
  \<open>JSON.parse\<close>, \<open>TextEncoder\<close> and \<open>TextDecoder\<close>. These are the fields of the
  environment below, over the type \<open>'r\<close> of the records being stored and the type \<open>'k\<close>
  of imported keys; \<open>None\<close> stands for a rejected promise or a thrown exception, and
  \<open>stringify\<close> may also return \<open>undefined\<close>, which \<open>TextEncoder.encode\<close> reads as the empty
  string. \<open>asUint8Array\<close> says whether a record is itself an array
  (\<open>Array.isArray\<close>) and, if so, what \<open>new Uint8Array\<close> makes of it.
\<close>

type_synonym bytes = "8 word list"

record ('r, 'k) browser =
  cryptoAvailable :: bool
  importKey :: "bytes \<Rightarrow> 'k option"
  encrypt :: "'k \<Rightarrow> bytes \<Rightarrow> bytes \<Rightarrow> bytes option"
  decrypt :: "'k \<Rightarrow> bytes \<Rightarrow> bytes \<Rightarrow> bytes option"
  stringify :: "'r \<Rightarrow> jsstring option option"
  parse :: "jsstring \<Rightarrow> 'r option"
  encode :: "jsstring \<Rightarrow> bytes"
  decode :: "bytes \<Rightarrow> jsstring"
  asUint8Array :: "'r \<Rightarrow> bytes option"

text \<open>
  What \<open>encryptData\<close> returns and \<open>decryptData\<close> takes: an array of numbers
  (\<open>Array.from(encryptedArray)\<close>), or the data as it is.
\<close>

datatype 'r stored = NumberArray "int list" | Plain 'r

text \<open>
  \<open>encryptData\<close>, with \<open>encryptionKey\<close> the manager's key (\<open>None\<close> for \<open>null\<close>) and \<open>iv\<close>
  the twelve bytes \<open>getRandomValues(new Uint8Array(12))\<close> returns. The result is the
  IV followed by the ciphertext; any failure falls back to the data as it is.
\<close>

definition encryptData ::
  "('r, 'k) browser \<Rightarrow> int list option \<Rightarrow> bytes \<Rightarrow> 'r \<Rightarrow> 'r stored" where
  "encryptData b encryptionKey iv data =
     (case encryptionKey of
        None \<Rightarrow> Plain data
      | Some rawKey \<Rightarrow>
          if \<not> cryptoAvailable b then Plain data
          else case stringify b data of
              None \<Rightarrow> Plain data
            | Some text \<Rightarrow>
                let dataBuffer = encode b (case text of None \<Rightarrow> [] | Some s \<Rightarrow> s) in
                case importKey b (map word_of_int rawKey) of
                  None \<Rightarrow> Plain data
                | Some key \<Rightarrow>
                   (case encrypt b key iv dataBuffer of
                      None \<Rightarrow> Plain data
                    | Some encryptedBuffer \<Rightarrow> NumberArray (map uint (iv @ encryptedBuffer))))"

text \<open>
  \<open>decryptData\<close>: on an array, \<open>slice(0, 12)\<close> is the IV and \<open>slice(12)\<close> the
  ciphertext; any failure falls back to the argument as it is.
\<close>

definition storedBytes :: "('r, 'k) browser \<Rightarrow> 'r stored \<Rightarrow> bytes option" where
  "storedBytes b encryptedData =
     (case encryptedData of
        NumberArray xs \<Rightarrow> Some (map word_of_int xs)
      | Plain data \<Rightarrow> asUint8Array b data)"

definition decryptData ::
  "('r, 'k) browser \<Rightarrow> int list option \<Rightarrow> 'r stored \<Rightarrow> 'r stored" where
  "decryptData b encryptionKey encryptedData =
     (case encryptionKey of
        None \<Rightarrow> encryptedData
      | Some rawKey \<Rightarrow>
          if \<not> cryptoAvailable b then encryptedData
          else case storedBytes b encryptedData of
              None \<Rightarrow> encryptedData
            | Some encryptedArray \<Rightarrow>
                let iv = take 12 encryptedArray;
                    data = drop 12 encryptedArray
                in case importKey b (map word_of_int rawKey) of
                  None \<Rightarrow> encryptedData
                | Some key \<Rightarrow>
                   (case decrypt b key iv data of
                      None \<Rightarrow> encryptedData
                    | Some decryptedBuffer \<Rightarrow>
                       (case parse b (decode b decryptedBuffer) of
                          None \<Rightarrow> encryptedData
                        | Some value \<Rightarrow> Plain value)))"

text \<open>
  A small environment to run the two functions in: records are strings, \<open>stringify\<close>
  puts a string in double quotes and \<open>parse\<close> takes them off, the encoder works on code
  units below 256, any key of 32 bytes is accepted, and the cipher adds the first byte
  of the key to every byte of the plain text.
\<close>

definition unquote :: "jsstring \<Rightarrow> jsstring option" where
  "unquote s = (if 2 \<le> length s \<and> hd s = 34 \<and> last s = 34 then Some (butlast (tl s)) else None)"

definition toyBrowser :: "(jsstring, bytes) browser" where
  "toyBrowser = \<lparr>cryptoAvailable = True,
     importKey = (\<lambda>raw. if length raw = 32 then Some raw else None),
     encrypt = (\<lambda>key iv pt. Some (map (\<lambda>x. x + hd key) pt)),
     decrypt = (\<lambda>key iv ct. Some (map (\<lambda>x. x - hd key) ct)),
     stringify = (\<lambda>r. Some (Some ([34] @ r @ [34]))),
     parse = unquote,
     encode = map of_nat,
     decode = map unat,
     asUint8Array = (\<lambda>r. None)\<rparr>"

definition toyKey :: "int list" where
  "toyKey = [3, 1, 4, 1, 5, 9, 2, 6, 5, 3, 5, 8, 9, 7, 9, 3,
     2, 3, 8, 4, 6, 2, 6, 4, 3, 3, 8, 3, 2, 7, 9, 5]"

definition toyIV :: bytes where
  "toyIV = [2, 7, 1, 8, 2, 8, 1, 8, 2, 8, 4, 5]"

section \<open>Properties of the hash\<close>

text \<open>The integer arithmetic of \<open>toInt32\<close> is the two's-complement reading of a 32-bit word.\<close>

lemma toInt32_sint: "toInt32 x = sint (word_of_int x :: 32 word)"
  by (simp add: toInt32_def sint_uint signed_take_bit_eq_take_bit_shift take_bit_eq_mod uint_word_of_int mod_add_left_eq)

lemma toInt32_bounds: "- 2147483648 \<le> toInt32 x \<and> toInt32 x < 2147483648"
  unfolding toInt32_def by simp

lemma hashLoop_bounds: "s \<noteq> [] \<Longrightarrow> \<bar>hashLoop h s\<bar> \<le> 2147483648"
proof (induction s arbitrary: h)
  case Nil then show ?case by simp
next
  case (Cons c cs)
  show ?case
  proof (cases cs)
    case Nil
    have "\<bar>hashStep h c\<bar> \<le> 2147483648"
      using toInt32_bounds [of "(shiftLeft h 5 - h) + int c"] unfolding hashStep_def by linarith
    with Nil show ?thesis by simp
  next
    case (Cons d ds)
    then show ?thesis using Cons.IH [of "hashStep h c"] by simp
  qed
qed

lemma hexDigit_isHex: "d < 16 \<Longrightarrow> isHexDigit (hexDigit d)"
  by (auto simp: hexDigit_def isHexDigit_def)

lemma toString16_hex: "list_all isHexDigit (toString16 n)"
proof (induction n rule: toString16.induct)
  case (1 n)
  show ?case
  proof (cases "n < 16")
    case True
    then show ?thesis by (subst toString16.simps) (simp add: hexDigit_isHex)
  next
    case False
    then show ?thesis using 1 by (subst toString16.simps) (simp add: hexDigit_isHex)
  qed
qed

lemma toString16_length: "n < 16 ^ Suc k \<Longrightarrow> length (toString16 n) \<le> Suc k"
proof (induction k arbitrary: n)
  case 0
  then show ?case by (subst toString16.simps) simp
next
  case (Suc k)
  show ?case
  proof (cases "n < 16")
    case True
    then show ?thesis by (subst toString16.simps) simp
  next
    case False
    have "n div 16 < 16 ^ Suc k" using Suc.prems by (simp add: less_mult_imp_div_less)
    then have "length (toString16 (n div 16)) \<le> Suc k" by (rule Suc.IH)
    with False show ?thesis by (subst toString16.simps) simp
  qed
qed

lemma toString16_nonempty: "toString16 n \<noteq> []"
  by (subst toString16.simps) simp

lemma startsWith_append: "startsWith s p \<Longrightarrow> \<exists>r. s = p @ r"
  by (induction s p rule: startsWith.induct) auto

lemma js_includes_append: "js_includes s p \<Longrightarrow> \<exists>a b. s = a @ p @ b"
proof (induction s)
  case Nil
  then show ?case by (cases p) auto
next
  case (Cons c cs)
  from Cons.prems have "startsWith (c # cs) p \<or> js_includes cs p" by simp
  then show ?case
  proof
    assume "startsWith (c # cs) p"
    then obtain r where "c # cs = p @ r" using startsWith_append by blast
    then have "c # cs = [] @ p @ r" by simp
    then show ?thesis by blast
  next
    assume "js_includes cs p"
    then obtain a b where "cs = a @ p @ b" using Cons.IH by blast
    then have "c # cs = (c # a) @ p @ b" by simp
    then show ?thesis by blast
  qed
qed


lemma simpleHash_hex: "list_all isHexDigit (simpleHash s)"
  by (simp add: simpleHash_def toString16_hex js_def isHexDigit_def)

lemma simpleHash_length: "length (simpleHash s) \<le> 8"
proof (cases "s = []")
  case True
  then show ?thesis by (simp add: simpleHash_def js_def)
next
  case False
  then have "nat \<bar>hashLoop 0 s\<bar> < 16 ^ Suc 7"
    using hashLoop_bounds [of s 0] by simp
  then have "length (toString16 (nat \<bar>hashLoop 0 s\<bar>)) \<le> Suc 7"
    by (rule toString16_length)
  with False show ?thesis by (simp add: simpleHash_def)
qed

lemma hashString_simpleHash: "hashString s = simpleHash s"
  by (simp add: hashString_def simpleHash_def)

text \<open>
  Claim C9, as amended. The hash is a function of its argument alone, and the adapters'
  \<open>hashString\<close> is the same function as the privacy manager's \<open>simpleHash\<close>. Its output
  is between one and eight lower-case hexadecimal digits. So the output cannot contain the
  input whenever the input has a code unit that is not a lower-case hexadecimal digit, or is
  longer than eight code units. (For a short input made of hexadecimal digits the output can
  contain it, as the counterexample below shows.)
\<close>

theorem simpleHash_output:
  "hashString s = simpleHash s \<and> list_all isHexDigit (simpleHash s)
   \<and> 1 \<le> length (simpleHash s) \<and> length (simpleHash s) \<le> 8
   \<and> (\<not> list_all isHexDigit s \<or> 8 < length s \<longrightarrow> \<not> js_includes (simpleHash s) s)"
proof -
  have ne: "simpleHash s \<noteq> []"
    by (simp add: simpleHash_def toString16_nonempty js_def)
  have inc: "\<not> js_includes (simpleHash s) s" if h: "\<not> list_all isHexDigit s \<or> 8 < length s"
  proof
    assume "js_includes (simpleHash s) s"
    then obtain a b where ab: "simpleHash s = a @ s @ b" using js_includes_append by blast
    have "list_all isHexDigit (a @ s @ b)" using simpleHash_hex [of s] ab by simp
    then have 1: "list_all isHexDigit s" by simp
    have "length (a @ s @ b) \<le> 8" using simpleHash_length [of s] ab by simp
    then have 2: "length s \<le> 8" by simp
    from h 1 2 show False by auto
  qed
  from ne have "1 \<le> length (simpleHash s)" by (cases "simpleHash s") auto
  then show ?thesis
    using inc hashString_simpleHash simpleHash_hex simpleHash_length by blast
qed

theorem simpleHash_output_witness:
  "\<not> list_all isHexDigit (js ''John Smith'') \<and> simpleHash (js ''John Smith'') = js ''10ae5cae''
   \<and> \<not> js_includes (simpleHash (js ''John Smith'')) (js ''John Smith'')"
  using simpleHash_output [of "js ''John Smith''"]
  by (simp add: simpleHash_def js_def hashStep_def toInt32_def shiftLeft_def toString16.simps
      hexDigit_def isHexDigit_def)

text \<open>
  Claim C9 as stated fails: the input \<open>"0"\<close> has the single code unit 48, the loop leaves
  \<open>hash = 48\<close>, and \<open>(48).toString(16)\<close> is \<open>"30"\<close>, which contains \<open>"0"\<close>.
\<close>

theorem simpleHash_reproduces_input_counterexample:
  "simpleHash (js ''0'') = js ''30'' \<and> hashString (js ''0'') = js ''30''
   \<and> js_includes (js ''30'') (js ''0'')"
  by (simp add: simpleHash_def hashString_def js_def hashStep_def toInt32_def shiftLeft_def
      toString16.simps hexDigit_def)

section \<open>Properties of the contact identifier\<close>

text \<open>
  Claim C1 says that every contact identifier leaving the adapter is a hash, the one taken
  from the URL included. The title and the contact-header branches call \<open>hashString\<close>;
  the URL branch returns \<open>match[1]\<close> as it is. On the page below the adapter returns the
  raw path segment \<open>"15551234567"\<close>, whose hash would be \<open>"40f15210"\<close>; the detector's
  own fallback does the same.
\<close>

theorem getCurrentContactId_raw_url:
  "getCurrentContactId \<lparr>href = js ''https://web.whatsapp.com/chat/15551234567'',
      title = js ''WhatsApp'', contactElements = [None, None, None]\<rparr> = Some (js ''15551234567'')
   \<and> extractContactIdFromPage (js ''whatsapp'') \<lparr>href = js ''https://web.whatsapp.com/chat/15551234567'',
      title = js ''WhatsApp'', contactElements = [None, None, None]\<rparr> = Some (js ''15551234567'')
   \<and> hashString (js ''15551234567'') = js ''40f15210''"
  by (simp add: getCurrentContactId_def extractContactIdFromURL_def extractContactIdFromPage_def urlPatterns_def
      truthy_def js_def notSeparator_def hashString_def hashStep_def toInt32_def shiftLeft_def
      toString16.simps hexDigit_def)

text \<open>The sibling branches do hash: with no match in the URL, the title is hashed.\<close>

lemma getCurrentContactId_title_hashed:
  "getCurrentContactId \<lparr>href = js ''https://web.whatsapp.com/'',
      title = js ''John Smith'', contactElements = [None, None, None]\<rparr> = Some (js ''10ae5cae'')"
  by (simp add: getCurrentContactId_def extractContactIdFromURL_def extractContactIdFromTitle_def
      truthy_def js_def notSeparator_def hashString_def hashStep_def toInt32_def shiftLeft_def
      toString16.simps hexDigit_def)

section \<open>Properties of the message detector\<close>

text \<open>
  Every call of \<open>handleNewMessage\<close> leaves the queue empty, so the duplicate check never
  finds an earlier message, and every valid detection is emitted.
\<close>

lemma processQueue_empties: "messageQueue (processQueue cur now q d) = []"
  by (induction q arbitrary: d) simp_all

lemma handleNewMessage_queue_empty:
  "messageQueue d = [] \<Longrightarrow> messageQueue (handleNewMessage cur now m d) = []"
  by (simp add: handleNewMessage_def processMessageQueue_def processQueue_empties Let_def)

lemma isDuplicateMessage_empty_queue: "messageQueue d = [] \<Longrightarrow> \<not> isDuplicateMessage d m"
  by (simp add: isDuplicateMessage_def)

lemma processQueue_count:
  "messageReceivedCount (processQueue cur now q d) = messageReceivedCount d"
  by (induction q arbitrary: d)
     (simp_all add: messageReceivedCount_def checkForContactChange_def split: option.splits)

lemma handleNewMessage_always_emits:
  "messageQueue d = [] \<Longrightarrow> message m \<noteq> [] \<Longrightarrow> \<not> falsy (contactId m) \<Longrightarrow> platform m \<noteq> [] \<Longrightarrow>
   messageReceivedCount (handleNewMessage cur now m d) = Suc (messageReceivedCount d)"
  using processQueue_count [of cur now "[m]" "d\<lparr>messageQueue := [m]\<rparr>"]
  by (simp add: handleNewMessage_def isDuplicateMessage_def processMessageQueue_def Let_def
      messageReceivedCount_def)

text \<open>
  Claim C3 says that of two detections with the same contact and the same text less than
  five seconds apart only the first is emitted. The detector does attempt this in
  \<open>isDuplicateMessage\<close>, but the check reads \<open>messageQueue\<close>, which
  \<open>processMessageQueue\<close> has emptied before \<open>handleNewMessage\<close> returns, and it asks for
  more than one earlier match. Two detections of \<open>"hello"\<close> from one contact with
  timestamps one second apart are both emitted.
\<close>

theorem duplicate_within_5s_emitted_twice:
  "messageReceivedCount
     (handleNewMessage (Some (js ''3c6a660'')) 2050
        \<lparr>message = js ''hello'', contactId = Some (js ''3c6a660''), platform = js ''whatsapp'',
          timestamp = 2000\<rparr>
        (handleNewMessage (Some (js ''3c6a660'')) 1050
           \<lparr>message = js ''hello'', contactId = Some (js ''3c6a660''), platform = js ''whatsapp'',
             timestamp = 1000\<rparr>
           (newDetector (js ''whatsapp'')))) = 2"
  by (simp add: handleNewMessage_def isDuplicateMessage_def processMessageQueue_def
      checkForContactChange_def newDetector_def messageReceivedCount_def falsy_def js_def Let_def)

section \<open>Properties of the content script\<close>

subsection \<open>The context window\<close>

lemma handleMessageReceived_length:
  "length (conversationContext st) \<le> 10 \<Longrightarrow>
   length (conversationContext (handleMessageReceived data lookup analyse st)) \<le> 10"
  by (cases lookup) (auto simp: handleMessageReceived_def Let_def)

lemma handleContactChanged_length:
  "length (conversationContext st) \<le> 10 \<Longrightarrow>
   length (conversationContext (handleContactChanged cid pf lookup st)) \<le> 10"
  by (cases lookup) (auto simp: handleContactChanged_def)

lemma step_length:
  "length (conversationContext st) \<le> 10 \<Longrightarrow> length (conversationContext (step st x)) \<le> 10"
  by (cases x) (simp_all add: handleMessageReceived_length handleContactChanged_length)

lemma run_length:
  "length (conversationContext st) \<le> 10 \<Longrightarrow> length (conversationContext (run ops st)) \<le> 10"
  unfolding run_def by (induction ops arbitrary: st) (simp_all add: step_length)

lemma handleMessageReceived_context:
  "conversationContext (handleMessageReceived data (Some c) analyse st) =
     drop (length (conversationContext st) + 1 - 10)
       (conversationContext st @ [\<lparr>ctxType = js ''received'', ctxMessage = message data,
           ctxTimestamp = timestamp data, ctxContactId = contactId data\<rparr>])"
  by (simp add: handleMessageReceived_def Let_def)

text \<open>
  Claim C6 as stated fails in one point: it says that every contact change empties the
  context. The assignment \<open>this.conversationContext = []\<close> comes after
  \<open>await this.contactManager.getOrCreateContact(...)\<close> inside the handler's \<open>try\<close>; when
  that lookup rejects, the \<open>catch\<close> logs the error and the old context stays. Below, a
  message from one contact is received and a contact change follows whose lookup rejects:
  the entry is still there.
\<close>

theorem contact_change_keeps_context_counterexample:
  "conversationContext
     (run [OnMessageReceived
             \<lparr>message = js ''hello'', contactId = Some (js ''3c6a660''),
               platform = js ''whatsapp'', timestamp = 1000\<rparr> (Some contactY) id,
           OnContactChanged (js ''10ae5cae'') (js ''whatsapp'') None] newChatsy)
   = [\<lparr>ctxType = js ''received'', ctxMessage = js ''hello'', ctxTimestamp = 1000,
        ctxContactId = Some (js ''3c6a660'')\<rparr>]"
  by (simp add: run_def handleMessageReceived_def handleContactChanged_def newChatsy_def Let_def)

text \<open>
  Claim C6, as amended. Starting from the constructor's empty context, after any sequence
  of \<open>handleMessageReceived\<close> and \<open>handleContactChanged\<close> calls, whatever the contact
  lookups return, the context holds at most ten entries. In any state, a received message
  whose lookup resolves leaves the last ten entries of the old context followed by the new
  entry, and a contact change whose lookup resolves leaves the empty context; a handler
  whose lookup rejects leaves the state as it was.
\<close>

theorem context_window_bounded:
  "length (conversationContext (run ops newChatsy)) \<le> 10
   \<and> (lookup = Some c \<longrightarrow>
        conversationContext (handleMessageReceived data lookup analyse st) =
          drop (length (conversationContext st) + 1 - 10)
           (conversationContext st @
             [\<lparr>ctxType = js ''received'', ctxMessage = message data,
               ctxTimestamp = timestamp data, ctxContactId = contactId data\<rparr>]))
   \<and> (lookup = Some c \<longrightarrow>
        conversationContext (handleContactChanged cid pf lookup st) = [])
   \<and> (lookup = None \<longrightarrow>
        handleMessageReceived data lookup analyse st = st
        \<and> handleContactChanged cid pf lookup st = st)"
proof -
  have "length (conversationContext newChatsy) \<le> 10" by (simp add: newChatsy_def)
  then have "length (conversationContext (run ops newChatsy)) \<le> 10" by (rule run_length)
  moreover have "conversationContext (handleContactChanged cid pf (Some c) st) = []"
    by (simp add: handleContactChanged_def)
  moreover have "handleMessageReceived data None analyse st = st"
    by (simp add: handleMessageReceived_def)
  moreover have "handleContactChanged cid pf None st = st"
    by (simp add: handleContactChanged_def)
  ultimately show ?thesis using handleMessageReceived_context [of data c analyse st] by simp
qed

theorem context_window_bounded_witness:
  "length (conversationContext (run [OnContactChanged (js ''10ae5cae'') (js ''whatsapp'') None] activeY)) \<le> 10
   \<and> conversationContext activeY \<noteq> []
   \<and> conversationContext
         (handleMessageReceived
            \<lparr>message = js ''hello'', contactId = Some (js ''3c6a660''),
              platform = js ''whatsapp'', timestamp = 2000\<rparr> (Some contactY) id activeY)
       = conversationContext activeY @
           [\<lparr>ctxType = js ''received'', ctxMessage = js ''hello'', ctxTimestamp = 2000,
              ctxContactId = Some (js ''3c6a660'')\<rparr>]
   \<and> conversationContext
         (handleContactChanged (js ''10ae5cae'') (js ''whatsapp'') (Some contactX) activeY) = []
   \<and> handleContactChanged (js ''10ae5cae'') (js ''whatsapp'') None activeY = activeY"
proof -
  have len: "length (conversationContext activeY) = 1"
    by (simp add: activeY_def handleMessageReceived_def withOverlay_def newChatsy_def Let_def)
  have ne: "conversationContext activeY \<noteq> []" using len by auto
  have bound: "length (conversationContext (run [OnContactChanged (js ''10ae5cae'') (js ''whatsapp'') None] activeY)) \<le> 10"
    using len by (simp add: run_def handleContactChanged_def)
  note some = context_window_bounded
      [of "[]" "Some contactY" contactY
          "\<lparr>message = js ''hello'', contactId = Some (js ''3c6a660''),
             platform = js ''whatsapp'', timestamp = 2000\<rparr>" id activeY
          "js ''10ae5cae''" "js ''whatsapp''"]
  note chg = context_window_bounded
      [of "[]" "Some contactX" contactX
          "\<lparr>message = js ''hello'', contactId = Some (js ''3c6a660''),
             platform = js ''whatsapp'', timestamp = 2000\<rparr>" id activeY
          "js ''10ae5cae''" "js ''whatsapp''"]
  note none = context_window_bounded
      [of "[]" None contactX
          "\<lparr>message = js ''hello'', contactId = Some (js ''3c6a660''),
             platform = js ''whatsapp'', timestamp = 2000\<rparr>" id activeY
          "js ''10ae5cae''" "js ''whatsapp''"]
  show ?thesis using some chg none len ne bound by simp
qed

subsection \<open>The three variants\<close>

lemma engaging_scenario:
  "makeEngaging formalEmojiState (js ''Sounds good'') = js ''Sounds good What do you think? '' @ smilingEmoji"
  by (simp add: makeEngaging_def formalEmojiState_def formalEmojiContact_def highEmojiUsage_def
      withOverlay_def newChatsy_def js_def smilingEmoji_def)

text \<open>
  Claim C8 as stated fails in one point: with emoji rate 0.8 the emoji is appended after
  the question, so the engaging variant of \<open>"Sounds good"\<close> ends with the emoji and not
  with \<open>"?"\<close>.
\<close>

theorem engaging_not_question_counterexample:
  "sugText (generateSuggestionOptions formalEmojiState 0 (js ''Sounds good'') (js ''Hi'') ! 2)
     = js ''Sounds good What do you think? '' @ smilingEmoji
   \<and> \<not> endsWith (sugText (generateSuggestionOptions formalEmojiState 0 (js ''Sounds good'') (js ''Hi'') ! 2)) (js ''?'')"
  by (simp add: generateSuggestionOptions_def engaging_scenario)
     (simp add: endsWith_def js_def smilingEmoji_def)

text \<open>
  Claim C8, as amended. \<open>generateSuggestionOptions\<close> always returns exactly three
  variants, \<open>direct\<close>, \<open>polite\<close> and \<open>engaging\<close>, and the direct one is the response
  unmodified. For the contact with formality 0.9 and emoji rate 0.8 and the response
  \<open>"Sounds good"\<close>, the engaging variant is \<open>"Sounds good What do you think? "\<close> followed
  by the emoji: it contains the question mark and ends with the emoji.
\<close>

theorem suggestion_options:
  "length (generateSuggestionOptions st r aiResponse originalMessage) = 3
   \<and> map sugId (generateSuggestionOptions st r aiResponse originalMessage)
       = [js ''direct'', js ''polite'', js ''engaging'']
   \<and> sugText (generateSuggestionOptions st r aiResponse originalMessage ! 0) = aiResponse
   \<and> sugText (generateSuggestionOptions formalEmojiState r (js ''Sounds good'') originalMessage ! 0)
       = js ''Sounds good''
   \<and> sugText (generateSuggestionOptions formalEmojiState r (js ''Sounds good'') originalMessage ! 2)
       = js ''Sounds good What do you think? '' @ smilingEmoji
   \<and> js_includes (sugText (generateSuggestionOptions formalEmojiState r (js ''Sounds good'') originalMessage ! 2))
        (js ''?'')
   \<and> endsWith (sugText (generateSuggestionOptions formalEmojiState r (js ''Sounds good'') originalMessage ! 2))
        smilingEmoji"
  by (simp add: generateSuggestionOptions_def engaging_scenario)
     (simp add: endsWith_def js_def smilingEmoji_def)

subsection \<open>A reply that arrives after a contact change\<close>

lemma activeY_request: "handleTypingDetected (Some (js ''3c6a660'')) activeY = Some requestForY"
  by (simp add: handleTypingDetected_def activeY_def handleMessageReceived_def withOverlay_def
      newChatsy_def contactY_def generateSuggestions_def buildConversationContext_def
      requestForY_def Let_def js_def)

text \<open>
  Claim C4 as stated fails. The request is issued for contact Y; the active contact
  changes to X; the reply arrives. The callback never reads the request's \<open>contactId\<close>:
  the overlay becomes visible with the three variants of Y's reply, under contact X.
\<close>

theorem late_reply_shown_counterexample:
  "handleTypingDetected (Some (js ''3c6a660'')) activeY = Some requestForY
   \<and> reqContactId requestForY = contactKey contactY
   \<and> currentContact activeX = Some contactX
   \<and> contactKey contactX \<noteq> reqContactId requestForY
   \<and> uiOverlay afterLateReply =
       Some \<lparr>currentSuggestions = generateSuggestionOptions activeX 0 (js ''Sounds good'')
                 (js ''Are we still on for tomorrow''),
             overlayContact = Some contactX, isVisible = True\<rparr>"
  apply (simp add: activeY_request)
  apply (simp add: afterLateReply_def deliverResponse_def showSuggestions_def overlayShowSuggestions_def
      activeX_def handleContactChanged_def activeY_def handleMessageReceived_def withOverlay_def
      newChatsy_def newOverlay_def requestForY_def contactX_def contactY_def
      generateSuggestionOptions_def Let_def)
  apply (simp add: js_def)
  done

text \<open>
  Claim C4, as amended. When a successful reply is delivered and the overlay exists, the
  reply is shown whatever contact the request was issued for: the overlay holds the three
  variants of the reply and the contact that is active at delivery time. A reply without
  \<open>success\<close>, or an \<open>undefined\<close> one, changes nothing.
\<close>

theorem reply_shown_for_active_contact:
  "(uiOverlay st = Some ov \<and> replySuccess re \<longrightarrow>
      uiOverlay (deliverResponse r req (Some re) st) =
        Some (ov\<lparr>currentSuggestions := generateSuggestionOptions st r (replyResponse re) (reqMessage req),
                 overlayContact := currentContact st, isVisible := True\<rparr>))
   \<and> (\<not> replySuccess re \<longrightarrow> deliverResponse r req (Some re) st = st)
   \<and> deliverResponse r req None st = st"
  by (simp add: deliverResponse_def showSuggestions_def overlayShowSuggestions_def
      generateSuggestionOptions_def)

theorem reply_shown_for_active_contact_witness:
  "uiOverlay activeX = Some newOverlay
   \<and> replySuccess \<lparr>replySuccess = True, replyResponse = js ''Sounds good''\<rparr>
   \<and> reqContactId requestForY \<noteq> contactKey contactX
   \<and> currentContact activeX = Some contactX
   \<and> uiOverlay (deliverResponse 0 requestForY
          (Some \<lparr>replySuccess = True, replyResponse = js ''Sounds good''\<rparr>) activeX) =
       Some (newOverlay\<lparr>currentSuggestions :=
                 generateSuggestionOptions activeX 0 (js ''Sounds good'') (reqMessage requestForY),
               overlayContact := Some contactX, isVisible := True\<rparr>)
   \<and> \<not> replySuccess \<lparr>replySuccess = False, replyResponse = js ''Sounds good''\<rparr>
   \<and> deliverResponse 0 requestForY
          (Some \<lparr>replySuccess = False, replyResponse = js ''Sounds good''\<rparr>) activeX = activeX"
proof -
  have ov: "uiOverlay activeX = Some newOverlay"
    by (simp add: activeX_def handleContactChanged_def activeY_def handleMessageReceived_def
        withOverlay_def newChatsy_def Let_def)
  have cur: "currentContact activeX = Some contactX"
    by (simp add: activeX_def handleContactChanged_def)
  have ne: "reqContactId requestForY \<noteq> contactKey contactX"
    by (simp add: requestForY_def contactX_def js_def)
  show ?thesis
    using reply_shown_for_active_contact
            [of activeX newOverlay "\<lparr>replySuccess = True, replyResponse = js ''Sounds good''\<rparr>"
                0 requestForY]
          reply_shown_for_active_contact
            [of activeX newOverlay "\<lparr>replySuccess = False, replyResponse = js ''Sounds good''\<rparr>"
                0 requestForY]
          ov cur ne
    by simp
qed

section \<open>Properties of the API manager\<close>

text \<open>A number in \<open>[0, 1)\<close> picks an index inside the array.\<close>

lemma randomIndex_less: "0 \<le> r \<Longrightarrow> r < 1 \<Longrightarrow> 0 < n \<Longrightarrow> randomIndex r n < n"
proof -
  assume a: "0 \<le> r" "r < 1" "0 < n"
  have "r * real n < real n" using a by simp
  then have "\<lfloor>r * real n\<rfloor> < int n" by (simp add: floor_less_iff)
  moreover have "0 \<le> \<lfloor>r * real n\<rfloor>" using a by simp
  ultimately show ?thesis unfolding randomIndex_def by linarith
qed

subsection \<open>The rate limiter\<close>

text \<open>Whatever \<open>requestCount\<close> holds, \<open>checkRateLimit\<close> throws.\<close>

lemma checkRateLimit_throws: "fst (checkRateLimit now m) = Inl TypeError"
  by (cases "requestCount m") (simp_all add: checkRateLimit_def Let_def)

text \<open>
  Claim C2 says that \<open>checkRateLimit\<close> never throws and that a call beyond the budget of
  60 per minute is delayed and then completes. The very first call on a new manager throws
  a \<open>TypeError\<close>, because \<open>requestCount\<close> is the number 0 and has no \<open>filter\<close>; and had
  \<open>requestCount\<close> been the array of 60 request times of the last minute that the code
  intends, the 61st call would have replaced it by the number 60 and thrown on
  \<open>Math.min(...60)\<close>.
\<close>

theorem checkRateLimit_first_call_throws:
  "checkRateLimit 1700000000000 newAPIManager = (Inl TypeError, newAPIManager)
   \<and> fst (checkRateLimit 1700000060000 (newAPIManager\<lparr>requestCount := Times (map (\<lambda>i. 1700000000000 + 1000 * int i) [1..<61])\<rparr>))
       = Inl TypeError"
  by (simp add: checkRateLimit_def newAPIManager_def Let_def)

subsection \<open>The fallback chain\<close>

lemma getRandomResponse_nonempty:
  assumes "0 \<le> r" "r < 1" "responses \<noteq> []" "[] \<notin> set responses"
  shows "\<exists>s. getRandomResponse r responses = Some s \<and> s \<noteq> []"
proof -
  have "randomIndex r (length responses) < length responses"
    using assms by (simp add: randomIndex_less)
  then show ?thesis using assms(4)
    by (auto simp: getRandomResponse_def elementAt_def in_set_conv_nth)
qed

lemma generateLocalResponse_nonempty:
  assumes "0 \<le> r" "r < 1"
  shows "\<exists>s. generateLocalResponse toLowerCase r data = Some s \<and> s \<noteq> []"
proof -
  have "\<exists>s. getRandomResponse r greetingResponses = Some s \<and> s \<noteq> []"
    by (rule getRandomResponse_nonempty [OF assms]) (simp_all add: greetingResponses_def js_def)
  moreover have "\<exists>s. getRandomResponse r howAreYouResponses = Some s \<and> s \<noteq> []"
    by (rule getRandomResponse_nonempty [OF assms]) (simp_all add: howAreYouResponses_def js_def)
  moreover have "\<exists>s. getRandomResponse r thanksResponses = Some s \<and> s \<noteq> []"
    by (rule getRandomResponse_nonempty [OF assms]) (simp_all add: thanksResponses_def js_def)
  moreover have "\<exists>s. getRandomResponse r farewellResponses = Some s \<and> s \<noteq> []"
    by (rule getRandomResponse_nonempty [OF assms]) (simp_all add: farewellResponses_def js_def)
  moreover have "\<exists>s. getRandomResponse r shortResponses = Some s \<and> s \<noteq> []"
    by (rule getRandomResponse_nonempty [OF assms]) (simp_all add: shortResponses_def js_def)
  moreover have "\<exists>s. getRandomResponse r defaultResponses = Some s \<and> s \<noteq> []"
    by (rule getRandomResponse_nonempty [OF assms]) (simp_all add: defaultResponses_def js_def)
  ultimately show ?thesis
    unfolding generateLocalResponse_def Let_def by presburger
qed

lemma tryHuggingFace_not_ok:
  assumes "\<forall>k p. \<exists>status b. fetchHF k p = FetchResponse status b \<and> \<not> ok status"
  shows "tryHuggingFace m fetchHF data = Inl TypeError \<or> tryHuggingFace m fetchHF data = Inr None"
proof (cases "keys m")
  case None
  then show ?thesis by (simp add: tryHuggingFace_def)
next
  case (Some ks)
  show ?thesis
  proof (cases "huggingface ks")
    case None
    with Some show ?thesis by (simp add: tryHuggingFace_def)
  next
    case (Some apiKey)
    obtain status b where "fetchHF apiKey (buildHFPrompt data) = FetchResponse status b"
      and "\<not> ok status" using assms by blast
    with Some \<open>keys m = Some ks\<close> show ?thesis by (simp add: tryHuggingFace_def)
  qed
qed

lemma tryGoogleGemini_malformed:
  assumes "\<forall>k p. \<exists>status. fetchGemini k p = FetchResponse status Malformed"
  shows "tryGoogleGemini m fetchGemini data = Inl TypeError \<or> tryGoogleGemini m fetchGemini data = Inr None"
proof (cases "keys m")
  case None
  then show ?thesis by (simp add: tryGoogleGemini_def)
next
  case (Some ks)
  show ?thesis
  proof (cases "gemini ks")
    case None
    with Some show ?thesis by (simp add: tryGoogleGemini_def)
  next
    case (Some apiKey)
    obtain status where "fetchGemini apiKey (buildGeminiPrompt data) = FetchResponse status Malformed"
      using assms by blast
    with Some \<open>keys m = Some ks\<close> show ?thesis by (simp add: tryGoogleGemini_def)
  qed
qed

text \<open>Whatever the providers do, \<open>generateResponse\<close> returns a non-empty string.\<close>

lemma generateResponse_nonempty:
  assumes "0 \<le> r" and "r < 1"
  shows "\<exists>s. generateResponse m fetchHF fetchGemini toLowerCase r data = Some s \<and> s \<noteq> []"
  using generateLocalResponse_nonempty [OF assms, of toLowerCase data]
  by (auto simp: generateResponse_def truthy_def split: sum.splits option.splits)

text \<open>
  Claim C5. If every HuggingFace request is answered with a status outside 200..299 and
  every Gemini request with a body that is not JSON, then \<open>generateResponse\<close> returns
  what the local pattern matcher returns. The local pattern matcher returns a string that
  is not empty for every message, and so does \<open>generateResponse\<close> whatever the providers
  do: there is no outcome in which every tier has failed. (\<open>r\<close> is the number
  \<open>Math.random()\<close> gives, in \<open>[0, 1)\<close>; the arithmetic of \<open>Math.floor(r * n)\<close> is taken
  exactly.)
\<close>

theorem fallback_chain_local:
  assumes "0 \<le> r" and "r < 1"
  shows "((\<forall>k p. \<exists>status b. fetchHF k p = FetchResponse status b \<and> \<not> ok status)
          \<and> (\<forall>k p. \<exists>status. fetchGemini k p = FetchResponse status Malformed)
          \<longrightarrow> generateResponse m fetchHF fetchGemini toLowerCase r data
                = generateLocalResponse toLowerCase r data)
         \<and> (\<exists>s. generateLocalResponse toLowerCase r data = Some s \<and> s \<noteq> [])
         \<and> (\<exists>s. generateResponse m fetchHF fetchGemini toLowerCase r data = Some s \<and> s \<noteq> [])"
proof -
  have 1: "generateResponse m fetchHF fetchGemini toLowerCase r data
           = generateLocalResponse toLowerCase r data"
    if hf: "\<forall>k p. \<exists>status b. fetchHF k p = FetchResponse status b \<and> \<not> ok status"
    and gm: "\<forall>k p. \<exists>status. fetchGemini k p = FetchResponse status Malformed"
    using tryHuggingFace_not_ok [OF hf, of m data] tryGoogleGemini_malformed [OF gm, of m data]
    by (auto simp: generateResponse_def truthy_def)
  show ?thesis
    using 1 generateLocalResponse_nonempty [OF assms, of toLowerCase data]
      generateResponse_nonempty [OF assms, of m fetchHF fetchGemini toLowerCase data]
    by blast
qed

lemma providers_called_in_scenario:
  "tryHuggingFace keyedAPIManager serverError helloRequest = Inr None
   \<and> tryGoogleGemini keyedAPIManager malformedReply helloRequest = Inr None"
  by (simp add: tryHuggingFace_def tryGoogleGemini_def keyedAPIManager_def newAPIManager_def
      serverError_def malformedReply_def ok_def js_def)

theorem fallback_chain_local_witness:
  "(0::real) \<le> 1/2 \<and> (1/2::real) < 1
   \<and> (\<forall>k p. \<exists>status b. serverError k p = FetchResponse status b \<and> \<not> ok status)
   \<and> (\<forall>k p. \<exists>status. malformedReply k p = FetchResponse status Malformed)
   \<and> generateResponse keyedAPIManager serverError malformedReply lowerAscii (1/2) helloRequest
       = Some (js ''Hi! How are you?'')"
proof -
  have a: "(0::real) \<le> 1/2" by simp
  have b: "(1/2::real) < 1" by simp
  have c: "\<forall>k p. \<exists>status b. serverError k p = FetchResponse status b \<and> \<not> ok status"
    by (simp add: serverError_def ok_def)
  have d: "\<forall>k p. \<exists>status. malformedReply k p = FetchResponse status Malformed"
    by (simp add: malformedReply_def)
  have e: "generateLocalResponse lowerAscii (1/2) helloRequest = Some (js ''Hi! How are you?'')"
    by (simp add: generateLocalResponse_def helloRequest_def lowerAscii_def js_def Let_def
        getRandomResponse_def greetingResponses_def elementAt_def randomIndex_def)
  have "generateResponse keyedAPIManager serverError malformedReply lowerAscii (1/2) helloRequest
        = generateLocalResponse lowerAscii (1/2) helloRequest"
    using fallback_chain_local [OF a b, of serverError malformedReply keyedAPIManager lowerAscii helloRequest]
      c d by blast
  with a b c d e show ?thesis by simp
qed

text \<open>
  When HuggingFace answers with a generated text, that text is the reply, cleaned of its
  \<open>Response:\<close> prefix.
\<close>

lemma generateResponse_provider_answer:
  "generateResponse keyedAPIManager
     (\<lambda>k p. FetchResponse 200
        (Parsed (JArr [JObj [(js ''generated_text'', JStr (js ''Response:  Sure, see you then ''))]])))
     malformedReply lowerAscii (1/2) helloRequest = Some (js ''Sure, see you then'')"
  by (simp add: generateResponse_def tryHuggingFace_def keyedAPIManager_def newAPIManager_def
      ok_def processHFResponse_def stripResponsePrefix_def upperAscii_def trim_def isWhiteSpace_def
      truncate100_def truthy_def js_def)


section \<open>Properties of the stored conversations\<close>

text \<open>The purge only removes entries.\<close>

lemma cleanupOldData_shrinks:
  "length (storedConversations (cleanupOldData now store)) \<le> length (storedConversations store)"
  by (cases "conversationData store") (simp_all add: cleanupOldData_def storedConversations_def Let_def)

text \<open>
  Claim C10. Whatever the storage holds, \<open>storeConversationData\<close> stores an array of at
  most 1000 records: the old array with the new record appended, cut down to its last
  1000 entries, so that the new record is the last one.
\<close>

theorem stored_conversations_bounded:
  "\<exists>kept. conversationData (storeConversationData now cid pf msg resp store) = Some kept
     \<and> length kept \<le> 1000
     \<and> kept = drop (length (storedConversations store) + 1 - 1000)
          (storedConversations store @
             [\<lparr>convContactId = cid, convPlatform = pf, convMessage = msg,
               convResponse = resp, convTimestamp = now, convSuccess = True\<rparr>])
     \<and> last kept = \<lparr>convContactId = cid, convPlatform = pf, convMessage = msg,
               convResponse = resp, convTimestamp = now, convSuccess = True\<rparr>"
  by (auto simp: storeConversationData_def Let_def)

section \<open>Properties of the encryption\<close>

text \<open>\<open>new Uint8Array(Array.from(bytes))\<close> gives the bytes back.\<close>

lemma bytes_roundtrip: "map word_of_int (map uint (xs :: bytes)) = xs"
  by (induction xs) simp_all

text \<open>
  Claim C7. Let the crypto primitive be available and the key be one that \<open>importKey\<close>
  accepts, let the IV have twelve bytes, and let \<open>R\<close> be serializable: \<open>JSON.stringify\<close>
  gives a string \<open>s\<close> that \<open>JSON.parse\<close> reads back as \<open>R\<close> and that survives encoding to
  bytes and back. Let AES-GCM encrypt the encoded string to \<open>ct\<close> and decrypt \<open>ct\<close> under
  the same key and IV to the encoded string again. Then \<open>encryptData\<close> returns the twelve
  bytes of the IV followed by \<open>ct\<close>, and \<open>decryptData\<close> applied to that returns \<open>R\<close>.
\<close>

theorem encrypt_decrypt_roundtrip:
  assumes avail: "cryptoAvailable b"
    and key: "importKey b (map word_of_int rawKey) = Some key"
    and iv: "length iv = 12"
    and str: "stringify b R = Some (Some s)"
    and enc: "encrypt b key iv (encode b s) = Some ct"
    and dec: "decrypt b key iv ct = Some (encode b s)"
    and utf: "decode b (encode b s) = s"
    and json: "parse b s = Some R"
  shows "encryptData b (Some rawKey) iv R = NumberArray (map uint iv @ map uint ct)
         \<and> decryptData b (Some rawKey) (encryptData b (Some rawKey) iv R) = Plain R"
proof -
  have e: "encryptData b (Some rawKey) iv R = NumberArray (map uint (iv @ ct))"
    using avail key str enc by (simp add: encryptData_def)
  have sb: "storedBytes b (NumberArray (map uint (iv @ ct))) = Some (iv @ ct)"
    unfolding storedBytes_def by (simp only: stored.case bytes_roundtrip)
  have "decryptData b (Some rawKey) (NumberArray (map uint (iv @ ct))) = Plain R"
    using avail key iv dec utf json sb by (simp add: decryptData_def Let_def del: map_append)
  with e show ?thesis by simp
qed

text \<open>The round trip in the small environment, on the record \<open>"hi"\<close>.\<close>

lemma toy_encrypt:
  "encryptData toyBrowser (Some toyKey) toyIV (js ''hi'')
     = NumberArray [2, 7, 1, 8, 2, 8, 1, 8, 2, 8, 4, 5, 37, 107, 108, 37]"
  by (simp add: encryptData_def toyBrowser_def toyKey_def toyIV_def js_def)

theorem encrypt_decrypt_roundtrip_witness:
  "cryptoAvailable toyBrowser
   \<and> importKey toyBrowser (map word_of_int toyKey) = Some (map word_of_int toyKey)
   \<and> length toyIV = 12
   \<and> stringify toyBrowser (js ''hi'') = Some (Some ([34] @ js ''hi'' @ [34]))
   \<and> encryptData toyBrowser (Some toyKey) toyIV (js ''hi'')
       = NumberArray (map uint toyIV @ map uint ([37, 107, 108, 37] :: bytes))
   \<and> decryptData toyBrowser (Some toyKey) (encryptData toyBrowser (Some toyKey) toyIV (js ''hi''))
       = Plain (js ''hi'')"
proof -
  have avail: "cryptoAvailable toyBrowser" by (simp add: toyBrowser_def)
  have key: "importKey toyBrowser (map word_of_int toyKey) = Some (map word_of_int toyKey)"
    by (simp add: toyBrowser_def toyKey_def)
  have iv: "length toyIV = 12" by (simp add: toyIV_def)
  have str: "stringify toyBrowser (js ''hi'') = Some (Some ([34] @ js ''hi'' @ [34]))"
    by (simp add: toyBrowser_def)
  have enc: "encrypt toyBrowser (map word_of_int toyKey) toyIV (encode toyBrowser ([34] @ js ''hi'' @ [34]))
      = Some [37, 107, 108, 37]"
    by (simp add: toyBrowser_def toyKey_def js_def)
  have dec: "decrypt toyBrowser (map word_of_int toyKey) toyIV [37, 107, 108, 37]
      = Some (encode toyBrowser ([34] @ js ''hi'' @ [34]))"
    by (simp add: toyBrowser_def toyKey_def js_def)
  have utf: "decode toyBrowser (encode toyBrowser ([34] @ js ''hi'' @ [34])) = [34] @ js ''hi'' @ [34]"
    by (simp add: toyBrowser_def js_def)
  have json: "parse toyBrowser ([34] @ js ''hi'' @ [34]) = Some (js ''hi'')"
    by (simp add: toyBrowser_def unquote_def js_def)
  note r = encrypt_decrypt_roundtrip [OF avail key iv str enc dec utf json]
  show ?thesis
    by (intro conjI avail key iv str r [THEN conjunct1] r [THEN conjunct2])
qed

end
